theory Spec2Isabelle
  imports Complex_Main
begin

section \<open>Values of the route handler\<close>

text \<open>
  The status endpoint lives in \<^verbatim>\<open>src/app/api/progress/route.ts\<close>. Its request
  body is whatever \<^verbatim>\<open>request.json()\<close> yields, so the model starts from parsed JSON
  values. A number is the finite value that the parser produced (both zeros are \<open>0\<close>);
  an object lists its members in the order of the text.
\<close>

datatype json =
    JNull
  | JBool bool
  | JNumber rat
  | JString string
  | JArray "json list"
  | JObject "(string \<times> json) list"

text \<open>JavaScript's truthiness, which decides every \<^verbatim>\<open>||\<close> of the handler.\<close>

fun truthy :: "json \<Rightarrow> bool" where
  "truthy JNull = False"
| "truthy (JBool b) = b"
| "truthy (JNumber n) = (n \<noteq> 0)"
| "truthy (JString s) = (s \<noteq> [])"
| "truthy (JArray xs) = True"
| "truthy (JObject ms) = True"

text \<open>
  The three ways in which the body of a handler can throw: \<^verbatim>\<open>request.json()\<close>
  rejects a text that is not JSON, reading a property of \<^verbatim>\<open>null\<close> is a
  TypeError, and a call to the key-value client fails.
\<close>

datatype error = SyntaxError | TypeError | KvError

text \<open>
  \<^verbatim>\<open>body.k\<close> for the four names the handler reads. \<open>None\<close> is
  \<^verbatim>\<open>undefined\<close>. A later member of an object overrides an earlier one of the same
  name, as in \<^verbatim>\<open>JSON.parse\<close>; booleans, numbers, strings and arrays have no
  property of these names.
\<close>

fun get_prop :: "json \<Rightarrow> string \<Rightarrow> error + json option" where
  "get_prop JNull k = Inl TypeError"
| "get_prop (JObject ms) k = Inr (map_of (rev ms) k)"
| "get_prop (JBool b) k = Inr None"
| "get_prop (JNumber n) k = Inr None"
| "get_prop (JString s) k = Inr None"
| "get_prop (JArray xs) k = Inr None"

text \<open>\<^verbatim>\<open>a || d\<close> where \<open>a\<close> may be \<^verbatim>\<open>undefined\<close>.\<close>

fun or_else :: "json option \<Rightarrow> json \<Rightarrow> json" where
  "or_else None d = d"
| "or_else (Some v) d = (if truthy v then v else d)"

section \<open>Environment, status record and stores\<close>

text \<open>\<^verbatim>\<open>process.env\<close>: a variable is unset or holds a string.\<close>

record env =
  KV_REST_API_URL :: "string option"
  KV_REST_API_TOKEN :: "string option"

fun env_truthy :: "string option \<Rightarrow> bool" where
  "env_truthy None = False"
| "env_truthy (Some s) = (s \<noteq> [])"

text \<open>\<^verbatim>\<open>process.env.KV_REST_API_URL && process.env.KV_REST_API_TOKEN\<close>\<close>

definition kv_configured :: "env \<Rightarrow> bool" where
  "kv_configured e = (env_truthy (KV_REST_API_URL e) \<and> env_truthy (KV_REST_API_TOKEN e))"

record bot_state =
  status :: json
  message :: json
  reelId :: json
  sender :: json
  updatedAt :: string

text \<open>
  The state of the server between two requests: the module variable
  \<^verbatim>\<open>fallbackStore\<close> and the value under \<^verbatim>\<open>KV_KEY\<close> in the external store
  (\<open>None\<close> when the key was never set, where \<^verbatim>\<open>kv.get\<close> gives \<^verbatim>\<open>null\<close>).
\<close>

record server =
  fallbackStore :: bot_state
  kv_store :: "bot_state option"

text \<open>The initial \<^verbatim>\<open>fallbackStore\<close>; \<open>t\<close> is the time at which the module is loaded.\<close>

definition initial_fallbackStore :: "string \<Rightarrow> bot_state" where
  "initial_fallbackStore t =
     \<lparr>status = JString ''idle'', message = JString ''Bot is initializing...'',
      reelId = JNull, sender = JNull, updatedAt = t\<rparr>"

definition initial_server :: "string \<Rightarrow> server" where
  "initial_server t = \<lparr>fallbackStore = initial_fallbackStore t, kv_store = None\<rparr>"

text \<open>
  The two calls to the key-value client. \<open>ok\<close> says whether the call goes through;
  a call that throws leaves the external store as it was.
\<close>

definition kv_get :: "bool \<Rightarrow> server \<Rightarrow> error + bot_state option" where
  "kv_get ok srv = (if ok then Inr (kv_store srv) else Inl KvError)"

definition kv_set :: "bool \<Rightarrow> bot_state \<Rightarrow> server \<Rightarrow> error + server" where
  "kv_set ok st srv = (if ok then Inr (srv\<lparr>kv_store := Some st\<rparr>) else Inl KvError)"

section \<open>Responses\<close>

datatype resp_body =
    State bot_state
  | Success bot_state
  | Failure string

record response =
  code :: nat
  payload :: resp_body

text \<open>\<^verbatim>\<open>NextResponse.json(data)\<close> answers 200 unless a status is given.\<close>

definition json_response :: "resp_body \<Rightarrow> nat \<Rightarrow> response" where
  "json_response b c = \<lparr>code = c, payload = b\<rparr>"

section \<open>GET\<close>

text \<open>The \<^verbatim>\<open>try\<close> block of \<^verbatim>\<open>GET\<close>: \<^verbatim>\<open>state || fallbackStore\<close> with KV, the
  memory otherwise.\<close>

definition GET_try :: "env \<Rightarrow> bool \<Rightarrow> server \<Rightarrow> error + response" where
  "GET_try e ok srv =
     (if kv_configured e then
        (case kv_get ok srv of
           Inl err \<Rightarrow> Inl err
         | Inr state \<Rightarrow>
             Inr (json_response
                    (State (case state of Some s \<Rightarrow> s | None \<Rightarrow> fallbackStore srv)) 200))
      else Inr (json_response (State (fallbackStore srv)) 200))"

text \<open>The handler with its \<^verbatim>\<open>catch\<close>; it returns the response and the server state
  it leaves behind.\<close>

definition GET :: "env \<Rightarrow> bool \<Rightarrow> server \<Rightarrow> response \<times> server" where
  "GET e ok srv =
     (case GET_try e ok srv of
        Inr r \<Rightarrow> (r, srv)
      | Inl err \<Rightarrow> (json_response (State (fallbackStore srv)) 200, srv))"

section \<open>POST\<close>

text \<open>The outcome of \<^verbatim>\<open>await request.json()\<close>.\<close>

datatype request = Malformed | Json json

fun request_json :: "request \<Rightarrow> error + json" where
  "request_json Malformed = Inl SyntaxError"
| "request_json (Json v) = Inr v"

text \<open>The object literal \<^verbatim>\<open>newState\<close>; \<open>now\<close> is \<^verbatim>\<open>new Date().toISOString()\<close>.\<close>

definition newState :: "json \<Rightarrow> string \<Rightarrow> error + bot_state" where
  "newState body now =
     (case get_prop body ''status'' of Inl err \<Rightarrow> Inl err | Inr st \<Rightarrow>
      case get_prop body ''message'' of Inl err \<Rightarrow> Inl err | Inr msg \<Rightarrow>
      case get_prop body ''reelId'' of Inl err \<Rightarrow> Inl err | Inr rid \<Rightarrow>
      case get_prop body ''sender'' of Inl err \<Rightarrow> Inl err | Inr sdr \<Rightarrow>
        Inr \<lparr>status = or_else st (JString ''idle''),
             message = or_else msg (JString ''''),
             reelId = or_else rid JNull,
             sender = or_else sdr JNull,
             updatedAt = now\<rparr>)"

definition POST_try :: "env \<Rightarrow> string \<Rightarrow> bool \<Rightarrow> request \<Rightarrow> server \<Rightarrow> error + response \<times> server" where
  "POST_try e now ok req srv =
     (case request_json req of Inl err \<Rightarrow> Inl err | Inr body \<Rightarrow>
      case newState body now of Inl err \<Rightarrow> Inl err | Inr ns \<Rightarrow>
      case (if kv_configured e then kv_set ok ns srv
            else Inr (srv\<lparr>fallbackStore := ns\<rparr>)) of
        Inl err \<Rightarrow> Inl err
      | Inr srv' \<Rightarrow> Inr (json_response (Success ns) 200, srv'))"

definition POST :: "env \<Rightarrow> string \<Rightarrow> bool \<Rightarrow> request \<Rightarrow> server \<Rightarrow> response \<times> server" where
  "POST e now ok req srv =
     (case POST_try e now ok req srv of
        Inr r \<Rightarrow> r
      | Inl err \<Rightarrow> (json_response (Failure ''Invalid payload'') 400, srv))"

section \<open>Runs of requests and the dashboard's status type\<close>

text \<open>A run of GET requests, one availability flag of the key-value call for each;
  the responses in order and the server state after the last one.\<close>

fun GETs :: "env \<Rightarrow> bool list \<Rightarrow> server \<Rightarrow> response list \<times> server" where
  "GETs e [] srv = ([], srv)"
| "GETs e (ok # oks) srv =
     (case GET e ok srv of (r, srv') \<Rightarrow>
        (case GETs e oks srv' of (rs, srv'') \<Rightarrow> (r # rs, srv'')))"


section \<open>Sample inputs\<close>

text \<open>A process without credentials, one with both, the body of the example request
  and the record it makes when it is written at \<open>t1\<close>.\<close>

definition local_env :: env where
  "local_env = \<lparr>KV_REST_API_URL = None, KV_REST_API_TOKEN = None\<rparr>"

definition kv_env :: env where
  "kv_env = \<lparr>KV_REST_API_URL = Some ''https://kv.example'', KV_REST_API_TOKEN = Some ''secret''\<rparr>"

definition uploading_body :: json where
  "uploading_body =
     JObject [(''status'', JString ''uploading''), (''message'', JString ''Uploading reel''),
              (''reelId'', JString ''abc123''), (''sender'', JString ''alice'')]"

definition uploading_record :: bot_state where
  "uploading_record =
     \<lparr>status = JString ''uploading'', message = JString ''Uploading reel'',
      reelId = JString ''abc123'', sender = JString ''alice'', updatedAt = ''t1''\<rparr>"

section \<open>Basic facts about the handlers\<close>

lemma get_prop_nonnull: "body \<noteq> JNull \<Longrightarrow> \<exists>v. get_prop body k = Inr v"
  by (cases body) simp_all


lemma newState_null: "newState JNull now = Inl TypeError"
  by (simp add: newState_def)

lemma newState_fields:
  assumes "newState body now = Inr ns"
  shows "\<exists>st msg rid sdr.
           get_prop body ''status'' = Inr st \<and> get_prop body ''message'' = Inr msg \<and>
           get_prop body ''reelId'' = Inr rid \<and> get_prop body ''sender'' = Inr sdr \<and>
           ns = \<lparr>status = or_else st (JString ''idle''), message = or_else msg (JString ''''),
                 reelId = or_else rid JNull, sender = or_else sdr JNull, updatedAt = now\<rparr>"
  using assms by (auto simp: newState_def split: sum.splits)

lemma POST_stores:
  assumes "newState body now = Inr ns" and "kv_configured e \<longrightarrow> ok"
  shows "POST e now ok (Json body) srv =
           (\<lparr>code = 200, payload = Success ns\<rparr>,
            if kv_configured e then srv\<lparr>kv_store := Some ns\<rparr> else srv\<lparr>fallbackStore := ns\<rparr>)"
  using assms by (simp add: POST_def POST_try_def kv_set_def json_response_def)

lemma POST_rejects:
  "POST e now ok Malformed srv = (\<lparr>code = 400, payload = Failure ''Invalid payload''\<rparr>, srv)"
  "POST e now ok (Json JNull) srv = (\<lparr>code = 400, payload = Failure ''Invalid payload''\<rparr>, srv)"
  "kv_configured e \<Longrightarrow> POST e now False req srv = (\<lparr>code = 400, payload = Failure ''Invalid payload''\<rparr>, srv)"
  by (simp_all add: POST_def POST_try_def kv_set_def json_response_def newState_def split: sum.splits)

lemma GET_answer:
  "GET e ok srv =
     (\<lparr>code = 200,
       payload = State (if kv_configured e \<and> ok
                        then (case kv_store srv of Some s \<Rightarrow> s | None \<Rightarrow> fallbackStore srv)
                        else fallbackStore srv)\<rparr>, srv)"
  by (simp add: GET_def GET_try_def kv_get_def json_response_def)

lemma POST_200D:
  assumes "code (fst (POST e now ok req srv)) = 200"
  shows "\<exists>body ns. req = Json body \<and> newState body now = Inr ns \<and> (kv_configured e \<longrightarrow> ok)"
proof (cases req)
  case Malformed
  with assms show ?thesis by (simp add: POST_rejects)
next
  case (Json body)
  show ?thesis
  proof (cases "newState body now")
    case (Inl err)
    with assms Json show ?thesis
      by (simp add: POST_def POST_try_def json_response_def)
  next
    case (Inr ns)
    with assms Json show ?thesis
      by (cases ok) (auto simp: POST_rejects)
  qed
qed

lemma map_of_rev_snoc:
  "map_of (rev (ms @ [(k, w)])) k' = (if k' = k then Some w else map_of (rev ms) k')"
  by simp

lemma map_of_rev_filter:
  "map_of (rev (filter (\<lambda>m. fst m \<noteq> k) ms)) k' = (if k' = k then None else map_of (rev ms) k')"
  by (induction ms) (auto simp: map_add_def split: option.splits)

lemma map_of_rev_insert:
  "k' \<noteq> k \<Longrightarrow> map_of (rev (ms1 @ (k, v) # ms2)) k' = map_of (rev (ms1 @ ms2)) k'"
  by (simp add: map_add_def split: option.splits)

lemma newState_cong:
  assumes "get_prop b ''status'' = get_prop b' ''status''"
    and "get_prop b ''message'' = get_prop b' ''message''"
    and "get_prop b ''reelId'' = get_prop b' ''reelId''"
    and "get_prop b ''sender'' = get_prop b' ''sender''"
  shows "newState b now = newState b' now"
  unfolding newState_def assms by (rule refl)

lemma POST_cong:
  "newState b now = newState b' now \<Longrightarrow> POST e now ok (Json b) srv = POST e now ok (Json b') srv"
  by (simp add: POST_def POST_try_def)

lemma falsy_values:
  "(\<not> truthy v) = (v = JNull \<or> v = JBool False \<or> v = JNumber 0 \<or> v = JString '''')"
  by (cases v) auto

lemma newState_falsy_member:
  assumes "\<not> truthy w"
  shows "newState (JObject (ms @ [(k, w)])) now = newState (JObject (filter (\<lambda>m. fst m \<noteq> k) ms)) now"
  unfolding newState_def get_prop.simps map_of_rev_snoc map_of_rev_filter
  using assms by simp

section \<open>The default record\<close>

text \<open>
  C6. A GET issued before any POST has ever been performed (the memory holds its
  initial value and nothing is stored under the key) returns 200 with the built-in
  default record, whose status is "idle"; this holds for every environment and whether
  or not the key-value call goes through.
\<close>

theorem GET_initial_default:
  "fst (GET e ok (initial_server t)) = \<lparr>code = 200, payload = State (initial_fallbackStore t)\<rparr>
   \<and> status (initial_fallbackStore t) = JString ''idle''"
  by (simp add: GET_def GET_try_def kv_get_def json_response_def initial_server_def
      initial_fallbackStore_def)

section \<open>Partial bodies\<close>

text \<open>
  C1. When a POST is accepted (the body is not null, so that \<open>newState\<close> yields a
  record \<open>ns\<close>, and the key-value write goes through when that backend is selected),
  the record that is stored and returned is \<open>ns\<close> whatever the server held before,
  and every field that the body omits has its default in \<open>ns\<close>: "idle", the empty
  string, null and null.
\<close>

theorem POST_partial_body_defaults:
  assumes "newState body now = Inr ns" and "kv_configured e \<longrightarrow> ok"
  shows "(\<forall>srv. POST e now ok (Json body) srv =
            (\<lparr>code = 200, payload = Success ns\<rparr>,
             if kv_configured e then srv\<lparr>kv_store := Some ns\<rparr>
             else srv\<lparr>fallbackStore := ns\<rparr>))
       \<and> (get_prop body ''status'' = Inr None \<longrightarrow> status ns = JString ''idle'')
       \<and> (get_prop body ''message'' = Inr None \<longrightarrow> message ns = JString '''')
       \<and> (get_prop body ''reelId'' = Inr None \<longrightarrow> reelId ns = JNull)
       \<and> (get_prop body ''sender'' = Inr None \<longrightarrow> sender ns = JNull)"
proof -
  from newState_fields [OF assms(1)] obtain st msg rid sdr where
    "get_prop body ''status'' = Inr st" "get_prop body ''message'' = Inr msg"
    "get_prop body ''reelId'' = Inr rid" "get_prop body ''sender'' = Inr sdr"
    "ns = \<lparr>status = or_else st (JString ''idle''), message = or_else msg (JString ''''),
           reelId = or_else rid JNull, sender = or_else sdr JNull, updatedAt = now\<rparr>"
    by blast
  then have "(get_prop body ''status'' = Inr None \<longrightarrow> status ns = JString ''idle'')
       \<and> (get_prop body ''message'' = Inr None \<longrightarrow> message ns = JString '''')
       \<and> (get_prop body ''reelId'' = Inr None \<longrightarrow> reelId ns = JNull)
       \<and> (get_prop body ''sender'' = Inr None \<longrightarrow> sender ns = JNull)"
    by auto
  moreover have "\<forall>srv. POST e now ok (Json body) srv =
            (\<lparr>code = 200, payload = Success ns\<rparr>,
             if kv_configured e then srv\<lparr>kv_store := Some ns\<rparr>
             else srv\<lparr>fallbackStore := ns\<rparr>)"
    using POST_stores [OF assms] by blast
  ultimately show ?thesis by blast
qed

theorem POST_partial_body_defaults_witness:
  "newState (JObject [(''status'', JString ''downloading'')]) ''t2'' =
     Inr \<lparr>status = JString ''downloading'', message = JString '''', reelId = JNull,
          sender = JNull, updatedAt = ''t2''\<rparr>
   \<and> \<not> kv_configured local_env
   \<and> POST local_env ''t2'' True (Json (JObject [(''status'', JString ''downloading'')]))
         \<lparr>fallbackStore = uploading_record, kv_store = None\<rparr> =
       (\<lparr>code = 200,
         payload = Success \<lparr>status = JString ''downloading'', message = JString '''',
                            reelId = JNull, sender = JNull, updatedAt = ''t2''\<rparr>\<rparr>,
        \<lparr>fallbackStore = \<lparr>status = JString ''downloading'', message = JString '''',
                           reelId = JNull, sender = JNull, updatedAt = ''t2''\<rparr>,
         kv_store = None\<rparr>)"
  using POST_partial_body_defaults
    [of "JObject [(''status'', JString ''downloading'')]" "''t2''"
        "\<lparr>status = JString ''downloading'', message = JString '''', reelId = JNull,
          sender = JNull, updatedAt = ''t2''\<rparr>" local_env True]
  by (simp add: newState_def local_env_def kv_configured_def)

section \<open>Write, then read\<close>




section \<open>Responses of POST\<close>




section \<open>A key-value store that throws\<close>

text \<open>
  C4. With both credentials set and a key-value client that throws, GET answers 200
  from the memory, but POST of the example body answers 400 "Invalid payload" and
  stores the record nowhere, the memory included.
\<close>

theorem POST_kv_unavailable_rejected:
  "POST kv_env ''t1'' False (Json uploading_body) (initial_server ''t0'') =
     (\<lparr>code = 400, payload = Failure ''Invalid payload''\<rparr>, initial_server ''t0'')
   \<and> GET kv_env False (initial_server ''t0'') =
     (\<lparr>code = 200, payload = State (initial_fallbackStore ''t0'')\<rparr>, initial_server ''t0'')"
  by (simp add: GET_answer POST_def POST_try_def newState_def kv_set_def json_response_def
      kv_env_def kv_configured_def uploading_body_def initial_server_def)

section \<open>Values of the stored status\<close>




section \<open>Runs of GET\<close>

text \<open>
  C7 (as amended). A run of GET requests never modifies the server state: the memory
  and the record under the key, \<open>updatedAt\<close> included, are after the run what they
  were before it. All responses of the run carry the same record provided that the
  key-value read behaves the same way on each request (it goes through on all of them
  or throws on all of them); without credentials that is always so.
\<close>

theorem GETs_frame:
  "snd (GETs e oks srv) = srv
   \<and> length (fst (GETs e oks srv)) = length oks
   \<and> ((kv_configured e \<longrightarrow> (\<forall>ok \<in> set oks. ok = ok0)) \<longrightarrow>
        (\<forall>r \<in> set (fst (GETs e oks srv)). r = fst (GET e ok0 srv)))"
proof (induction oks)
  case Nil
  show ?case by simp
next
  case (Cons ok oks)
  obtain r where g: "GET e ok srv = (r, srv)"
    by (simp add: GET_answer)
  obtain rs where gs: "GETs e oks srv = (rs, srv)"
    using Cons.IH by (cases "GETs e oks srv") simp
  have step: "GETs e (ok # oks) srv = (r # rs, srv)"
    by (simp add: g gs)
  have same: "r = fst (GET e ok0 srv)" if "kv_configured e \<longrightarrow> ok = ok0"
    using that g by (auto simp: GET_answer)
  show ?case unfolding step using Cons.IH same by (simp add: gs)
qed

theorem GETs_frame_witness:
  "kv_configured kv_env \<and> set [True, True, True] \<subseteq> {True}
   \<and> GETs kv_env [True, True, True] \<lparr>fallbackStore = initial_fallbackStore ''t0'',
                                       kv_store = Some uploading_record\<rparr> =
       ([\<lparr>code = 200, payload = State uploading_record\<rparr>,
         \<lparr>code = 200, payload = State uploading_record\<rparr>,
         \<lparr>code = 200, payload = State uploading_record\<rparr>],
        \<lparr>fallbackStore = initial_fallbackStore ''t0'', kv_store = Some uploading_record\<rparr>)"
  using GETs_frame [of kv_env "[True, True, True]"
      "\<lparr>fallbackStore = initial_fallbackStore ''t0'', kv_store = Some uploading_record\<rparr>" True]
  by (simp add: GET_answer kv_env_def kv_configured_def)

text \<open>
  Two GET requests in a row on the state that the example POST leaves behind: the read
  goes through for the first and throws for the second, and the two records differ.
\<close>

theorem GETs_frame_counterexample:
  "fst (GETs kv_env [True, False]
          (snd (POST kv_env ''t1'' True (Json uploading_body) (initial_server ''t0'')))) =
     [\<lparr>code = 200, payload = State uploading_record\<rparr>,
      \<lparr>code = 200, payload = State (initial_fallbackStore ''t0'')\<rparr>]
   \<and> uploading_record \<noteq> initial_fallbackStore ''t0''"
  by (simp add: GET_answer POST_def POST_try_def newState_def kv_set_def json_response_def
      kv_env_def kv_configured_def uploading_body_def uploading_record_def
      initial_server_def initial_fallbackStore_def)

section \<open>Selection of the backend\<close>

text \<open>
  C8. The backend is chosen by the environment on every request. The key-value store is
  selected exactly when both \<open>KV_REST_API_URL\<close> and \<open>KV_REST_API_TOKEN\<close> are present,
  that is, set to a non-empty string. Then GET answers with what the read of the key
  gives (the memory stands in only when the key holds nothing or the read throws), and
  an accepted POST writes the key and leaves the memory alone. Otherwise GET answers
  with the memory whatever the key-value store holds, and an accepted POST writes the
  memory and leaves the key alone.
\<close>

theorem backend_selection:
  "(kv_configured e \<longleftrightarrow>
      (\<exists>u. KV_REST_API_URL e = Some u \<and> u \<noteq> []) \<and>
      (\<exists>k. KV_REST_API_TOKEN e = Some k \<and> k \<noteq> []))
   \<and> (kv_configured e \<longrightarrow>
        GET e ok srv =
          (\<lparr>code = 200,
            payload = State (if ok then (case kv_store srv of Some s \<Rightarrow> s
                                         | None \<Rightarrow> fallbackStore srv)
                             else fallbackStore srv)\<rparr>, srv)
        \<and> (newState body now = Inr ns \<longrightarrow>
             snd (POST e now ok (Json body) srv) =
               (if ok then srv\<lparr>kv_store := Some ns\<rparr> else srv)))
   \<and> (\<not> kv_configured e \<longrightarrow>
        GET e ok srv = (\<lparr>code = 200, payload = State (fallbackStore srv)\<rparr>, srv)
        \<and> (newState body now = Inr ns \<longrightarrow>
             snd (POST e now ok (Json body) srv) = srv\<lparr>fallbackStore := ns\<rparr>))"
proof -
  have sel: "kv_configured e \<longleftrightarrow>
      (\<exists>u. KV_REST_API_URL e = Some u \<and> u \<noteq> []) \<and>
      (\<exists>k. KV_REST_API_TOKEN e = Some k \<and> k \<noteq> [])"
    by (cases "KV_REST_API_URL e"; cases "KV_REST_API_TOKEN e") (simp_all add: kv_configured_def)
  have kv: "snd (POST e now ok (Json body) srv) = (if ok then srv\<lparr>kv_store := Some ns\<rparr> else srv)"
    if "kv_configured e" and "newState body now = Inr ns"
    using that POST_stores [of body now ns e ok srv] POST_rejects(3) [of e now "Json body" srv]
    by (cases ok) simp_all
  have mem: "snd (POST e now ok (Json body) srv) = srv\<lparr>fallbackStore := ns\<rparr>"
    if "\<not> kv_configured e" and "newState body now = Inr ns"
    using that POST_stores [of body now ns e ok srv] by simp
  have g1: "GET e ok srv =
          (\<lparr>code = 200,
            payload = State (if ok then (case kv_store srv of Some s \<Rightarrow> s
                                         | None \<Rightarrow> fallbackStore srv)
                             else fallbackStore srv)\<rparr>, srv)"
    if "kv_configured e"
    using that by (simp add: GET_answer)
  have g2: "GET e ok srv = (\<lparr>code = 200, payload = State (fallbackStore srv)\<rparr>, srv)"
    if "\<not> kv_configured e"
    using that by (simp add: GET_answer)
  show ?thesis using sel kv mem g1 g2 by blast
qed

theorem backend_selection_witness:
  "kv_configured kv_env \<and> \<not> kv_configured local_env
   \<and> \<not> kv_configured \<lparr>KV_REST_API_URL = Some ''https://kv.example'', KV_REST_API_TOKEN = None\<rparr>
   \<and> newState uploading_body ''t1'' = Inr uploading_record
   \<and> snd (POST kv_env ''t1'' True (Json uploading_body) (initial_server ''t0'')) =
       \<lparr>fallbackStore = initial_fallbackStore ''t0'', kv_store = Some uploading_record\<rparr>
   \<and> snd (POST local_env ''t1'' True (Json uploading_body) (initial_server ''t0'')) =
       \<lparr>fallbackStore = uploading_record, kv_store = None\<rparr>
   \<and> fst (GET kv_env True
            \<lparr>fallbackStore = initial_fallbackStore ''t0'', kv_store = Some uploading_record\<rparr>) =
       \<lparr>code = 200, payload = State uploading_record\<rparr>
   \<and> fst (GET local_env True
            \<lparr>fallbackStore = initial_fallbackStore ''t0'', kv_store = Some uploading_record\<rparr>) =
       \<lparr>code = 200, payload = State (initial_fallbackStore ''t0'')\<rparr>"
  using backend_selection [of kv_env True "initial_server ''t0''" uploading_body "''t1''"
      uploading_record]
    backend_selection [of local_env True "initial_server ''t0''" uploading_body "''t1''"
      uploading_record]
    backend_selection [of kv_env True
      "\<lparr>fallbackStore = initial_fallbackStore ''t0'', kv_store = Some uploading_record\<rparr>"
      uploading_body "''t1''" uploading_record]
    backend_selection [of local_env True
      "\<lparr>fallbackStore = initial_fallbackStore ''t0'', kv_store = Some uploading_record\<rparr>"
      uploading_body "''t1''" uploading_record]
  by (simp add: newState_def uploading_body_def uploading_record_def kv_env_def local_env_def
      kv_configured_def initial_server_def)

section \<open>The time stamp\<close>

text \<open>
  C9. Every POST that is answered 200 stores and returns a record whose \<open>updatedAt\<close>
  is the server's time of the write; and an \<open>updatedAt\<close> member in the body, wherever
  it stands and whatever its value, changes neither the response nor the stored record.
\<close>

theorem POST_updatedAt_server_side:
  "(code (fst (POST e now ok req srv)) = 200 \<longrightarrow>
      (\<exists>ns. POST e now ok req srv =
               (\<lparr>code = 200, payload = Success ns\<rparr>,
                if kv_configured e then srv\<lparr>kv_store := Some ns\<rparr>
                else srv\<lparr>fallbackStore := ns\<rparr>)
           \<and> updatedAt ns = now))
   \<and> POST e now ok (Json (JObject (ms1 @ (''updatedAt'', v) # ms2))) srv =
       POST e now ok (Json (JObject (ms1 @ ms2))) srv"
proof -
  have stamp: "\<exists>ns. POST e now ok req srv =
               (\<lparr>code = 200, payload = Success ns\<rparr>,
                if kv_configured e then srv\<lparr>kv_store := Some ns\<rparr>
                else srv\<lparr>fallbackStore := ns\<rparr>)
           \<and> updatedAt ns = now"
    if "code (fst (POST e now ok req srv)) = 200"
  proof -
    from POST_200D [OF that] obtain body ns where
      req: "req = Json body" and ns: "newState body now = Inr ns" and ok: "kv_configured e \<longrightarrow> ok"
      by blast
    from newState_fields [OF ns] have "updatedAt ns = now" by auto
    with POST_stores [OF ns ok, of srv] req show ?thesis by blast
  qed
  have "newState (JObject (ms1 @ (''updatedAt'', v) # ms2)) now = newState (JObject (ms1 @ ms2)) now"
    by (rule newState_cong) (simp_all add: map_of_rev_insert del: rev_append map_of_append)
  from POST_cong [OF this] stamp show ?thesis by blast
qed

theorem POST_updatedAt_server_side_witness:
  "code (fst (POST local_env ''t1'' True
                (Json (JObject ([(''status'', JString ''uploading'')]
                                @ (''updatedAt'', JString ''1999-01-01T00:00:00.000Z'') # [])))
                (initial_server ''t0''))) = 200
   \<and> POST local_env ''t1'' True
         (Json (JObject ([(''status'', JString ''uploading'')]
                         @ (''updatedAt'', JString ''1999-01-01T00:00:00.000Z'') # [])))
         (initial_server ''t0'') =
       POST local_env ''t1'' True (Json (JObject [(''status'', JString ''uploading'')]))
         (initial_server ''t0'')
   \<and> updatedAt (fallbackStore (snd (POST local_env ''t1'' True
         (Json (JObject ([(''status'', JString ''uploading'')]
                         @ (''updatedAt'', JString ''1999-01-01T00:00:00.000Z'') # [])))
         (initial_server ''t0'')))) = ''t1''"
  using POST_updatedAt_server_side
    [of local_env "''t1''" True
        "Json (JObject ([(''status'', JString ''uploading'')]
                        @ (''updatedAt'', JString ''1999-01-01T00:00:00.000Z'') # []))"
        "initial_server ''t0''" "[(''status'', JString ''uploading'')]"
        "JString ''1999-01-01T00:00:00.000Z''" "[]"]
  by (simp add: POST_def POST_try_def newState_def json_response_def local_env_def
      kv_configured_def initial_server_def)

section \<open>Falsy fields\<close>

text \<open>
  C10. In the record that an accepted POST stores, a field that the body supplies with a
  falsy value has its default: "idle" for status, the empty string for message, null
  for reelId and for sender. The falsy JSON values are null, false, 0 and the empty
  string. A member with a falsy value is indistinguishable from an omitted one: the
  POST of an object that ends with such a member answers and stores what the POST of
  the object without any member of that name does.
\<close>

theorem POST_falsy_field_defaults:
  assumes "newState body now = Inr ns" and "kv_configured e \<longrightarrow> ok"
  shows "POST e now ok (Json body) srv =
           (\<lparr>code = 200, payload = Success ns\<rparr>,
            if kv_configured e then srv\<lparr>kv_store := Some ns\<rparr>
            else srv\<lparr>fallbackStore := ns\<rparr>)
       \<and> (\<forall>v. get_prop body ''status'' = Inr (Some v) \<and> \<not> truthy v \<longrightarrow>
              status ns = JString ''idle'')
       \<and> (\<forall>v. get_prop body ''message'' = Inr (Some v) \<and> \<not> truthy v \<longrightarrow>
              message ns = JString '''')
       \<and> (\<forall>v. get_prop body ''reelId'' = Inr (Some v) \<and> \<not> truthy v \<longrightarrow> reelId ns = JNull)
       \<and> (\<forall>v. get_prop body ''sender'' = Inr (Some v) \<and> \<not> truthy v \<longrightarrow> sender ns = JNull)
       \<and> (\<not> truthy w \<longleftrightarrow>
            w = JNull \<or> w = JBool False \<or> w = JNumber 0 \<or> w = JString '''')
       \<and> (\<not> truthy w \<longrightarrow>
            POST e now ok (Json (JObject (ms @ [(k, w)]))) srv =
            POST e now ok (Json (JObject (filter (\<lambda>m. fst m \<noteq> k) ms))) srv)"
proof -
  from newState_fields [OF assms(1)] obtain st msg rid sdr where
    "get_prop body ''status'' = Inr st" "get_prop body ''message'' = Inr msg"
    "get_prop body ''reelId'' = Inr rid" "get_prop body ''sender'' = Inr sdr"
    "ns = \<lparr>status = or_else st (JString ''idle''), message = or_else msg (JString ''''),
           reelId = or_else rid JNull, sender = or_else sdr JNull, updatedAt = now\<rparr>"
    by blast
  then have fields:
    "(\<forall>v. get_prop body ''status'' = Inr (Some v) \<and> \<not> truthy v \<longrightarrow>
              status ns = JString ''idle'')
       \<and> (\<forall>v. get_prop body ''message'' = Inr (Some v) \<and> \<not> truthy v \<longrightarrow>
              message ns = JString '''')
       \<and> (\<forall>v. get_prop body ''reelId'' = Inr (Some v) \<and> \<not> truthy v \<longrightarrow> reelId ns = JNull)
       \<and> (\<forall>v. get_prop body ''sender'' = Inr (Some v) \<and> \<not> truthy v \<longrightarrow> sender ns = JNull)"
    by auto
  have same: "POST e now ok (Json (JObject (ms @ [(k, w)]))) srv =
            POST e now ok (Json (JObject (filter (\<lambda>m. fst m \<noteq> k) ms))) srv"
    if "\<not> truthy w"
    using newState_falsy_member [OF that] by (rule POST_cong)
  show ?thesis
    using POST_stores [OF assms, of srv] fields same falsy_values [of w] by blast
qed

theorem POST_falsy_field_defaults_witness:
  "newState (JObject [(''status'', JString ''''), (''message'', JString ''''),
                      (''reelId'', JNumber 0), (''sender'', JBool False)]) ''t1'' =
     Inr \<lparr>status = JString ''idle'', message = JString '''', reelId = JNull, sender = JNull,
          updatedAt = ''t1''\<rparr>
   \<and> \<not> kv_configured local_env
   \<and> \<not> truthy (JString '''')
   \<and> fallbackStore (snd (POST local_env ''t1'' True
         (Json (JObject [(''status'', JString ''''), (''message'', JString ''''),
                         (''reelId'', JNumber 0), (''sender'', JBool False)]))
         (initial_server ''t0''))) =
       \<lparr>status = JString ''idle'', message = JString '''', reelId = JNull, sender = JNull,
        updatedAt = ''t1''\<rparr>
   \<and> POST local_env ''t1'' True
         (Json (JObject ([(''reelId'', JString ''abc123'')] @ [(''reelId'', JString '''')])))
         (initial_server ''t0'') =
       POST local_env ''t1'' True (Json (JObject [])) (initial_server ''t0'')"
  using POST_falsy_field_defaults
    [of "JObject [(''status'', JString ''''), (''message'', JString ''''),
                  (''reelId'', JNumber 0), (''sender'', JBool False)]" "''t1''"
        "\<lparr>status = JString ''idle'', message = JString '''', reelId = JNull, sender = JNull,
          updatedAt = ''t1''\<rparr>" local_env True "initial_server ''t0''" "JString ''''"
        "[(''reelId'', JString ''abc123'')]" "''reelId''"]
  by (simp add: newState_def local_env_def kv_configured_def)

end
